theory Spec2Isabelle
  imports Complex_Main
begin

section \<open>Number model and the helpers of util/miscmath.h\<close>

text \<open>
  The C code computes in \<open>float\<close> and \<open>double\<close> (\<open>real\<close> is a typedef of \<open>double\<close>) and in
  the complex types \<open>cmplxf\<close> and \<open>cmplx\<close>. This development reads every such value as an exact
  real or complex number: rounding, overflow to infinity and the sign of zero are
  outside the model. Where the C code produces a NaN that changes which branch is taken
  (a division \<open>0/0\<close>, a square root of a negative number) or evaluates \<open>assert\<close>, the model
  returns an error value instead of a number.
\<close>

datatype cerror = AssertionFailed | NotANumber | OutOfBounds

text \<open>
  Modelled from the spec: \<open>cabs2\<close>, \<open>cdot\<close>, \<open>ccross\<close>, \<open>cswap\<close>, \<open>clerp\<close>, \<open>clamp\<close> and
  \<open>cnormalize\<close> are declared in util/miscmath.h, which is not among the sources. They are
  the usual planar vector operations on a complex number read as the vector
  \<open>(re, im)\<close>; laser.c itself documents \<open>dot(a, b) == |a|*|b|*cos(theta)\<close>.
\<close>

definition cabs2 :: "complex \<Rightarrow> real" where
  "cabs2 z = Re z * Re z + Im z * Im z"

definition cdot :: "complex \<Rightarrow> complex \<Rightarrow> real" where
  "cdot a b = Re a * Re b + Im a * Im b"

definition ccross :: "complex \<Rightarrow> complex \<Rightarrow> real" where
  "ccross a b = Re a * Im b - Im a * Re b"

definition cswap :: "complex \<Rightarrow> complex" where
  "cswap z = Complex (Im z) (Re z)"

definition clerp :: "complex \<Rightarrow> complex \<Rightarrow> real \<Rightarrow> complex" where
  "clerp a b f = a * of_real (1 - f) + b * of_real f"

definition clamp :: "real \<Rightarrow> real \<Rightarrow> real \<Rightarrow> real" where
  "clamp f lo hi = (if f < lo then lo else if f > hi then hi else f)"

definition cnormalize :: "complex \<Rightarrow> complex" where
  "cnormalize z = z / of_real (cmod z)"

section \<open>Data model of lasers/laser.c\<close>

text \<open>
  A laser rule is \<open>MAKE_LASER_RULE(func, data)\<close>: a function pointer together with its
  coefficient payload. The model keeps the pair as the function of the laser's origin
  \<open>l->pos\<close> and the curve time that the pointer and payload determine.
\<close>

type_synonym LaserRule = "complex \<Rightarrow> real \<Rightarrow> complex"

record LaserBBox =
  bbox_top_left :: complex
  bbox_bottom_right :: complex

record Laser =
  pos :: complex
  birthtime :: int
  timespan :: real
  deathtime :: real
  timeshift :: real
  speed :: real
  width :: real
  width_exponent :: real
  rule :: LaserRule
  collision_active :: bool
  unclearable :: bool
  next_graze :: int
  bbox :: LaserBBox
  segments_ofs :: nat
  num_segments :: int

record LaserSegment =
  pos_a :: complex
  pos_b :: complex
  time_a :: real
  time_b :: real
  width_a :: real
  width_b :: real

record LaserSamplingParams =
  num_samples :: nat
  time_shift :: real
  time_step :: real

record LaserWidthParams =
  midpoint :: real
  tail :: real
  tail_factor :: real
  exponent :: real
  scale :: real

record LaserSample =
  sample_p :: complex
  sample_t :: real

section \<open>Width model\<close>

text \<open>\<open>calc_width_params\<close>, laser.c lines 172-178.\<close>

definition calc_width_params :: "Laser \<Rightarrow> LaserWidthParams" where
  "calc_width_params l =
     (let mp = timespan l * 0.5;
          tl = timespan l * 0.625
      in \<lparr> midpoint = mp, tail = tl, tail_factor = - 1 / (tl * tl),
           exponent = width_exponent l, scale = 0.75 * width l \<rparr>)"

text \<open>
  \<open>calc_sample_width\<close>, laser.c lines 180-189. \<open>powf\<close> is read as the real power
  function; the branch is not taken for the default exponent 1.
\<close>

definition calc_sample_width :: "LaserWidthParams \<Rightarrow> real \<Rightarrow> real" where
  "calc_sample_width wp t =
     (let mid_ofs = t - midpoint wp;
          w = tail_factor wp * (mid_ofs - tail wp) * (mid_ofs + tail wp);
          w' = (if exponent wp \<noteq> 1 then w powr exponent wp else w)
      in scale wp * w')"

text \<open>\<open>laser_charge\<close>, laser.c lines 779-794; \<open>t\<close> is a C \<open>int\<close>.\<close>

definition laser_charge :: "Laser \<Rightarrow> int \<Rightarrow> real \<Rightarrow> real \<Rightarrow> Laser" where
  "laser_charge l t charge wd =
     (let new_width =
        (if real_of_int t < charge - 10 then
           min 2 (2 * real_of_int t / min 30 (charge - 10))
         else if real_of_int t \<ge> charge - 10 \<and> real_of_int t < deathtime l - 20 then
           min wd (1.7 + wd / 20 * (real_of_int t - charge + 10))
         else if real_of_int t \<ge> deathtime l - 20 then
           max 0 (wd - wd / 20 * (real_of_int t - deathtime l + 20))
         else wd)
      in l\<lparr> width := new_width, collision_active := (new_width > wd * 0.6) \<rparr>)"

section \<open>Motion rules (lasers/rules.c) and the sampler\<close>

text \<open>\<open>laser_rule_linear\<close> with \<open>laser_rule_linear_impl\<close>, rules.c lines 13-23.\<close>

definition laser_rule_linear :: "complex \<Rightarrow> LaserRule" where
  "laser_rule_linear velocity = (\<lambda>lpos tm. lpos + of_real tm * velocity)"

text \<open>
  \<open>laser_rule_accelerated\<close> with \<open>laser_rule_accelerated_impl\<close>, rules.c lines 28-39: the
  payload stores \<open>half_accel = accel * 0.5\<close>.
\<close>

definition laser_rule_accelerated :: "complex \<Rightarrow> complex \<Rightarrow> LaserRule" where
  "laser_rule_accelerated velocity accel =
     (let half_accel = accel * 0.5
      in (\<lambda>lpos tm. lpos + of_real tm * (velocity + of_real tm * half_accel)))"

text \<open>
  Modelled from the spec: \<open>laser_pos_at\<close> is declared in lasers/laser.h, which is not among
  the sources. The spec gives its contract as \<open>evaluate(rule, laser_origin, t) \<rightarrow> position\<close>,
  a pure function of the rule, the laser's origin and the time.
\<close>

definition laser_pos_at :: "Laser \<Rightarrow> real \<Rightarrow> complex" where
  "laser_pos_at l tm = rule l (pos l) tm"

text \<open>
  \<open>laser_prepare_sampling_params\<close>, laser.c lines 144-170. \<open>frames\<close> is \<open>global.frames\<close>;
  \<open>None\<close> is the return value \<open>false\<close>.
\<close>

definition laser_prepare_sampling_params ::
  "int \<Rightarrow> Laser \<Rightarrow> real \<Rightarrow> LaserSamplingParams option" where
  "laser_prepare_sampling_params frames l stp =
     (let c0 = timespan l;
          t0 = real_of_int (frames - birthtime l) * speed l - timespan l + timeshift l;
          c1 = (if t0 + timespan l > deathtime l + timeshift l
                then c0 + (deathtime l + timeshift l - (t0 + timespan l)) else c0);
          c2 = (if t0 < 0 then c1 + t0 else c1);
          t1 = (if t0 < 0 then 0 else t0)
      in if c2 \<le> 0 then None
         else (let ns = real_of_int \<lceil>(c2 + stp) / stp\<rceil>
               in Some \<lparr> num_samples = nat \<lceil>(c2 + stp) / stp\<rceil>,
                         time_shift = t1,
                         time_step = (c2 + stp) / ns \<rparr>))"

text \<open>
  The \<open>for\<close> loop of \<open>fill_samples\<close>, laser.c lines 209-214: the first argument counts the
  iterations left, \<open>prev\<close> is the last element of the array.
\<close>

fun fill_loop ::
  "nat \<Rightarrow> Laser \<Rightarrow> real \<Rightarrow> real \<Rightarrow> real \<Rightarrow> LaserSample list \<Rightarrow> LaserSample list" where
  "fill_loop 0 l tstep maxtime tm arr = arr"
| "fill_loop (Suc n) l tstep maxtime tm arr =
     (let pt = laser_pos_at l tm;
          arr' = (if sample_p (last arr) \<noteq> pt
                  then arr @ [\<lparr> sample_p = pt, sample_t = tm \<rparr>] else arr)
      in fill_loop n l tstep maxtime (min (tm + tstep) maxtime) arr')"

text \<open>\<open>fill_samples\<close>, laser.c lines 197-223; the result is the scratch array.\<close>

definition fill_samples :: "LaserSamplingParams \<Rightarrow> Laser \<Rightarrow> cerror + LaserSample list" where
  "fill_samples sp l =
     (let tm = time_shift sp;
          maxtime = time_shift sp + timespan l;
          arr0 = [\<lparr> sample_p = laser_pos_at l tm, sample_t = tm \<rparr>];
          arr1 = fill_loop (num_samples sp - 1) l (time_step sp) maxtime (tm + time_step sp) arr0;
          n = length arr1;
          arr2 = arr1[n - 1 := (arr1 ! (n - 1))\<lparr> sample_t := maxtime \<rparr>]
      in if n > 1 \<and> \<not> (sample_t (arr2 ! (n - 2)) < maxtime) then Inl AssertionFailed
         else Inr arr2)"

section \<open>Quantizer\<close>

record FloatRect =
  rect_x :: real
  rect_y :: real
  rect_w :: real
  rect_h :: real

text \<open>\<open>laserseg_flip\<close>, laser.c lines 191-195.\<close>

definition laserseg_flip :: "LaserSegment \<Rightarrow> LaserSegment" where
  "laserseg_flip s =
     \<lparr> pos_a = pos_b s, pos_b = pos_a s,
       time_a = time_b s, time_b = time_a s,
       width_a = width_b s, width_b = width_a s \<rparr>"

text \<open>\<open>segment_is_visible\<close>, laser.c lines 225-258.\<close>

definition segment_is_visible :: "complex \<Rightarrow> complex \<Rightarrow> FloatRect \<Rightarrow> bool" where
  "segment_is_visible a b bounds =
     (let xa = Re a; ya = Im a; xb = Re b; yb = Im b;
          left = rect_x bounds; right = left + rect_w bounds;
          top = rect_y bounds; bottom = top + rect_h bounds
      in if xa \<ge> left \<and> xa \<le> right \<and> ya \<ge> top \<and> ya \<le> bottom then True
         else if xb \<ge> left \<and> xb \<le> right \<and> yb \<ge> top \<and> yb \<le> bottom then True
         else if xa < left \<and> xb < left then False
         else if xa > right \<and> xb > right then False
         else if ya < top \<and> yb < top then False
         else if ya > bottom \<and> yb > bottom then False
         else if xa \<ge> left \<and> xa \<le> right \<and> xb \<ge> left \<and> xb \<le> right then True
         else (let m = (Im a - Im b) / (Re a - Re b);
                   c = Im a - m * Re a;
                   y0 = m * left + c;
                   y1 = m * right + c
               in max y0 y1 \<ge> top \<and> min y0 y1 \<le> bottom))"

text \<open>
  \<open>add_segment\<close>, laser.c lines 260-283. The first component of the state is the shared
  buffer \<open>lintern.segments\<close>, to which \<open>dynarray_append\<close> adds at the end; the second is
  the laser, whose bounding box grows. The \<open>assert\<close> of line 269 is the error branch.
\<close>

definition add_segment ::
  "LaserSegment list \<Rightarrow> Laser \<Rightarrow> LaserSegment \<Rightarrow> cerror + (LaserSegment list \<times> Laser)" where
  "add_segment segments l cseg =
     (let seg = (if width_b cseg < width_a cseg then laserseg_flip cseg else cseg)
      in if \<not> (width_a seg \<le> width_b seg) then Inl AssertionFailed
         else (let xa = Re (pos_a cseg); ya = Im (pos_a cseg);
                   xb = Re (pos_b cseg); yb = Im (pos_b cseg);
                   bb = bbox l;
                   bb' = \<lparr> bbox_top_left =
                             Complex (min (Re (bbox_top_left bb)) (min xa xb))
                                     (min (Im (bbox_top_left bb)) (min ya yb)),
                           bbox_bottom_right =
                             Complex (max (Re (bbox_bottom_right bb)) (max xa xb))
                                     (max (Im (bbox_bottom_right bb)) (max ya yb)) \<rparr>
               in Inr (segments @ [seg], l\<lparr> bbox := bb' \<rparr>)))"

text \<open>
  The local variables that the loop of \<open>construct_segments\<close> carries from one sample to
  the next, with the segment buffer and the laser.
\<close>

record ConstructState =
  cs_t0 :: real
  cs_a :: complex
  cs_w0 :: real
  cs_v0 :: complex
  cs_v0_abs2 :: real
  cs_segments :: "LaserSegment list"
  cs_laser :: Laser

text \<open>
  Lines 355-370 of \<open>construct_segments\<close>: the sample is included. \<open>assume\<close> is an
  assertion in debug builds, so a zero \<open>v0_abs2\<close> is the error branch.
\<close>

definition include_sample ::
  "LaserSamplingParams \<Rightarrow> LaserWidthParams \<Rightarrow> FloatRect \<Rightarrow> ConstructState \<Rightarrow> LaserSample
   \<Rightarrow> cerror + ConstructState" where
  "include_sample sp wp viewbounds st s =
     (let b = sample_p s;
          w = calc_sample_width wp (sample_t s - time_shift sp);
          added = (if segment_is_visible (cs_a st) b viewbounds
                   then add_segment (cs_segments st) (cs_laser st)
                          \<lparr> pos_a = cs_a st, pos_b = b,
                            time_a = time_shift sp - cs_t0 st,
                            time_b = time_shift sp - sample_t s,
                            width_a = cs_w0 st, width_b = w \<rparr>
                   else Inr (cs_segments st, cs_laser st))
      in case added of
           Inl e \<Rightarrow> Inl e
         | Inr (segments', l') \<Rightarrow>
             (let v0 = b - cs_a st; v0_abs2 = cabs2 v0
              in if v0_abs2 = 0 then Inl AssertionFailed
                 else Inr \<lparr> cs_t0 = sample_t s, cs_a = b, cs_w0 = w, cs_v0 = v0,
                            cs_v0_abs2 = v0_abs2, cs_segments = segments',
                            cs_laser = l' \<rparr>))"

text \<open>
  The loop of \<open>construct_segments\<close>, laser.c lines 319-371, over the samples from the
  second one on. A sample followed by another one is not \<open>last_sample\<close>, and the
  lookahead \<open>(sample + 1)->p\<close> is that follower. The two \<open>assert(norm2 != 0)\<close> are error
  branches; \<open>continue\<close> is the recursive call on the unchanged state.
\<close>

fun construct_loop ::
  "LaserSamplingParams \<Rightarrow> LaserWidthParams \<Rightarrow> FloatRect \<Rightarrow> ConstructState
   \<Rightarrow> LaserSample list \<Rightarrow> cerror + ConstructState" where
  "construct_loop sp wp viewbounds st [] = Inr st"
| "construct_loop sp wp viewbounds st [s] = include_sample sp wp viewbounds st s"
| "construct_loop sp wp viewbounds st (s # nxt # rest) =
     (let thres_angular = 1 / 10000;
          thres_temporal = real (num_samples sp) / 16;
          b = sample_p s;
          proceed = (\<lambda>u::unit.
             case include_sample sp wp viewbounds st s of
               Inl e \<Rightarrow> Inl e
             | Inr st' \<Rightarrow> construct_loop sp wp viewbounds st' (nxt # rest))
      in if sample_t s - cs_t0 st < thres_temporal then
           (let v1 = b - cs_a st;
                dot = cdot (cs_v0 st) v1;
                norm2 = cs_v0_abs2 st * cabs2 v1
            in if norm2 = 0 then Inl AssertionFailed
               else (let norm = sqrt norm2;
                         cosTheta = dot / norm;
                         d = 1 - \<bar>cosTheta\<bar>
                     in if d < thres_angular then
                          (let c = sample_p nxt;
                               v2 = c - b;
                               dot' = cdot v1 v2;
                               norm2' = cabs2 v1 * cabs2 v2
                           in if norm2' = 0 then Inl AssertionFailed
                              else (let norm' = sqrt norm2';
                                        cosTheta' = dot' / norm';
                                        d' = 1 - \<bar>cosTheta'\<bar>
                                    in if d' < thres_angular
                                       then construct_loop sp wp viewbounds st (nxt # rest)
                                       else proceed ()))
                        else proceed ()))
         else proceed ())"

text \<open>
  \<open>construct_segments\<close>, laser.c lines 285-372, on the sample array that \<open>fill_samples\<close>
  left in \<open>lasers.samples\<close>. It is called with at least two samples; reading the second
  one from a shorter array is out of bounds.
\<close>

definition construct_segments ::
  "LaserSegment list \<Rightarrow> Laser \<Rightarrow> LaserSamplingParams \<Rightarrow> LaserWidthParams \<Rightarrow> FloatRect
   \<Rightarrow> LaserSample list \<Rightarrow> cerror + (LaserSegment list \<times> Laser)" where
  "construct_segments segments l sp wp viewbounds samples =
     (case samples of
        sample0 # sample1 # rest \<Rightarrow>
          (let a = sample_p sample0;
               v0 = a - sample_p sample1;
               v0_abs2 = cabs2 v0
           in if v0_abs2 = 0 then Inl AssertionFailed
              else (case construct_loop sp wp viewbounds
                           \<lparr> cs_t0 = sample_t sample0, cs_a = a,
                             cs_w0 = calc_sample_width wp 0, cs_v0 = v0,
                             cs_v0_abs2 = v0_abs2, cs_segments = segments,
                             cs_laser = l \<rparr>
                           (sample1 # rest) of
                      Inl e \<Rightarrow> Inl e
                    | Inr st \<Rightarrow> Inr (cs_segments st, cs_laser st)))
      | _ \<Rightarrow> Inl OutOfBounds)"

text \<open>
  \<open>quantize_laser\<close>, laser.c lines 374-434. The macros \<open>LASER_SDF_RANGE\<close> and
  \<open>VIEWPORT_SIZE\<close> are defined in headers that are not among the sources, so the model
  takes the range \<open>sdf_range\<close> and the viewport's width and height as parameters.
  \<open>frames\<close> is \<open>global.frames\<close> and \<open>segments\<close> the shared buffer \<open>lintern.segments\<close>.
  The result is the buffer, the laser and the value returned.
\<close>

definition quantize_laser ::
  "real \<Rightarrow> real \<Rightarrow> real \<Rightarrow> int \<Rightarrow> LaserSegment list \<Rightarrow> Laser
   \<Rightarrow> cerror + (LaserSegment list \<times> Laser \<times> int)" where
  "quantize_laser sdf_range viewport_w viewport_h frames segments l =
     (let l1 = l\<lparr> segments_ofs := length segments, num_segments := 0 \<rparr>
      in case laser_prepare_sampling_params frames l1 0.5 of
           None \<Rightarrow>
             Inr (segments,
                  l1\<lparr> bbox := \<lparr> bbox_top_left = 0, bbox_bottom_right = 0 \<rparr> \<rparr>, 0)
         | Some sp \<Rightarrow>
             if \<not> num_samples sp > 0 then Inl AssertionFailed
             else (let viewmargin = sdf_range + width l1 * 0.5;
                       viewbounds = \<lparr> rect_x = 0 - viewmargin, rect_y = 0 - viewmargin,
                                      rect_w = viewport_w + viewmargin * 2,
                                      rect_h = viewport_h + viewmargin * 2 \<rparr>;
                       wp = calc_width_params l1
                   in case fill_samples sp l1 of
                        Inl e \<Rightarrow> Inl e
                      | Inr samples \<Rightarrow>
                          (let sample0 = samples ! 0;
                               l2 = l1\<lparr> bbox := \<lparr> bbox_top_left = sample_p sample0,
                                                   bbox_bottom_right = sample_p sample0 \<rparr> \<rparr>;
                               built =
                                 (if length samples = 1 then
                                    (if segment_is_visible (sample_p sample0) (sample_p sample0)
                                          viewbounds
                                     then (let w = calc_sample_width wp
                                                     (sample_t sample0 - time_shift sp);
                                               tm = time_shift sp - sample_t sample0
                                           in add_segment segments l2
                                                \<lparr> pos_a = sample_p sample0,
                                                  pos_b = sample_p sample0,
                                                  time_a = tm, time_b = tm,
                                                  width_a = w, width_b = w \<rparr>)
                                     else Inr (segments, l2))
                                  else construct_segments segments l2 sp wp viewbounds samples)
                           in case built of
                                Inl e \<Rightarrow> Inl e
                              | Inr (segments', l3) \<Rightarrow>
                                  (let aabb_margin = sdf_range + width l3 * 0.5;
                                       ofs = of_real aabb_margin * Complex 1 1;
                                       n = int (length segments') - int (segments_ofs l3);
                                       l4 = l3\<lparr> bbox :=
                                              \<lparr> bbox_top_left = bbox_top_left (bbox l3) - ofs,
                                                bbox_bottom_right =
                                                  bbox_bottom_right (bbox l3) + ofs \<rparr>,
                                              num_segments := n \<rparr>
                                   in Inr (segments', l4, n)))))"

text \<open>
  The chords that the loop of \<open>construct_segments\<close> offers to \<open>segment_is_visible\<close> at
  line 357, in order: each runs from the last included point \<open>a\<close> to the sample \<open>b\<close> that
  is included next. This is the walk of \<open>construct_loop\<close> (lines 319-371) with the same
  tests, without the widths, the buffer and the laser; where an assertion fails the
  list ends. \<open>construct_loop_count\<close> below relates the two.
\<close>

fun loop_chords ::
  "LaserSamplingParams \<Rightarrow> real \<Rightarrow> complex \<Rightarrow> complex \<Rightarrow> real \<Rightarrow> LaserSample list
   \<Rightarrow> (complex \<times> complex) list" where
  "loop_chords sp t0 a v0 v0_abs2 [] = []"
| "loop_chords sp t0 a v0 v0_abs2 [s] = [(a, sample_p s)]"
| "loop_chords sp t0 a v0 v0_abs2 (s # nxt # rest) =
     (let thres_angular = 1 / 10000;
          thres_temporal = real (num_samples sp) / 16;
          b = sample_p s;
          proceed = (\<lambda>u::unit.
             (a, b) # (if cabs2 (b - a) = 0 then []
                       else loop_chords sp (sample_t s) b (b - a) (cabs2 (b - a)) (nxt # rest)))
      in if sample_t s - t0 < thres_temporal then
           (let v1 = b - a;
                dot = cdot v0 v1;
                norm2 = v0_abs2 * cabs2 v1
            in if norm2 = 0 then []
               else (let norm = sqrt norm2;
                         cosTheta = dot / norm;
                         d = 1 - \<bar>cosTheta\<bar>
                     in if d < thres_angular then
                          (let c = sample_p nxt;
                               v2 = c - b;
                               dot' = cdot v1 v2;
                               norm2' = cabs2 v1 * cabs2 v2
                           in if norm2' = 0 then []
                              else (let norm' = sqrt norm2';
                                        cosTheta' = dot' / norm';
                                        d' = 1 - \<bar>cosTheta'\<bar>
                                    in if d' < thres_angular
                                       then loop_chords sp t0 a v0 v0_abs2 (nxt # rest)
                                       else proceed ()))
                        else proceed ()))
         else proceed ())"

text \<open>
  The chords of one call of \<open>quantize_laser\<close>: the single chord of lines 411-423 when there
  is one sample, those of \<open>construct_segments\<close> (with its initial \<open>a\<close>, \<open>v0\<close> and \<open>v0_abs2\<close> of
  lines 300-315) otherwise.
\<close>

definition quantizer_chords ::
  "LaserSamplingParams \<Rightarrow> LaserSample list \<Rightarrow> (complex \<times> complex) list" where
  "quantizer_chords sp samples =
     (case samples of
        [] \<Rightarrow> []
      | [sample0] \<Rightarrow> [(sample_p sample0, sample_p sample0)]
      | sample0 # sample1 # rest \<Rightarrow>
          loop_chords sp (sample_t sample0) (sample_p sample0)
            (sample_p sample0 - sample_p sample1)
            (cabs2 (sample_p sample0 - sample_p sample1)) (sample1 # rest))"

text \<open>The chords that \<open>segment_is_visible\<close> accepts for the bounds \<open>vb\<close>.\<close>

definition visible_chords ::
  "FloatRect \<Rightarrow> (complex \<times> complex) list \<Rightarrow> (complex \<times> complex) list" where
  "visible_chords vb cs = filter (\<lambda>c. segment_is_visible (fst c) (snd c) vb) cs"


section \<open>Geometry primitives (util/geometry.c)\<close>

record LineSegment =
  ls_a :: complex
  ls_b :: complex

record UnevenCapsule =
  uc_pos :: LineSegment
  radius_a :: real
  radius_b :: real

record Rect =
  top_left :: complex
  bottom_right :: complex

text \<open>
  Modelled from the spec: \<open>rect_left\<close>, \<open>rect_right\<close>, \<open>rect_top\<close> and \<open>rect_bottom\<close> are
  declared in util/geometry.h, which is not among the sources. The spec describes a
  box by its min and max corners; \<open>rect_set_xywh\<close> (geometry.c lines 242-245) stores
  \<open>(x, y)\<close> in \<open>top_left\<close> and \<open>(x + w, y + h)\<close> in \<open>bottom_right\<close>.
\<close>

definition rect_left :: "Rect \<Rightarrow> real" where "rect_left r = Re (top_left r)"
definition rect_right :: "Rect \<Rightarrow> real" where "rect_right r = Re (bottom_right r)"
definition rect_top :: "Rect \<Rightarrow> real" where "rect_top r = Im (top_left r)"
definition rect_bottom :: "Rect \<Rightarrow> real" where "rect_bottom r = Im (bottom_right r)"

text \<open>\<open>point_in_rect\<close>, geometry.c lines 135-141.\<close>

definition point_in_rect :: "complex \<Rightarrow> Rect \<Rightarrow> bool" where
  "point_in_rect pt r =
     (Re pt \<ge> rect_left r \<and> Re pt \<le> rect_right r \<and>
      Im pt \<ge> rect_top r \<and> Im pt \<le> rect_bottom r)"

text \<open>\<open>lineseg_closest_factor_impl\<close> and \<open>lineseg_closest_factor\<close>, geometry.c lines 55-74.\<close>

definition lineseg_closest_factor_impl :: "complex \<Rightarrow> complex \<Rightarrow> real" where
  "lineseg_closest_factor_impl m v =
     (let lm2 = cabs2 m
      in if lm2 = 0 then 0
         else clamp (- Re (v * cnj m) / lm2) 0 1)"

definition lineseg_closest_factor :: "LineSegment \<Rightarrow> complex \<Rightarrow> real" where
  "lineseg_closest_factor seg pt = lineseg_closest_factor_impl (ls_b seg - ls_a seg) (ls_a seg - pt)"


text \<open>
  \<open>ucapsule_dist_from_point\<close>, geometry.c lines 247-273. The \<open>assert\<close> of line 248 is an
  error branch. For a segment of length zero the C code divides \<open>0/0\<close>, and for
  \<open>h < b * b\<close> it takes the square root of a negative number: in both cases every
  comparison that follows is false and the value returned is a NaN, which the model
  reports as \<open>NotANumber\<close>.
\<close>

definition ucapsule_dist_from_point :: "complex \<Rightarrow> UnevenCapsule \<Rightarrow> cerror + real" where
  "ucapsule_dist_from_point pt ucap =
     (if \<not> (radius_b ucap \<ge> radius_a ucap) then Inl AssertionFailed
      else (let p1 = pt - ls_a (uc_pos ucap);
                pb = ls_b (uc_pos ucap) - ls_a (uc_pos ucap);
                h = cabs2 pb
            in if h = 0 then Inl NotANumber
               else (let q0 = Complex (cdot p1 (cnj (cswap pb))) (cdot p1 pb) / of_real h;
                         q = Complex \<bar>Re q0\<bar> (Im q0);
                         b = radius_a ucap - radius_b ucap
                     in if h - b * b < 0 then Inl NotANumber
                        else (let c = Complex (sqrt (h - b * b)) b;
                                  k = ccross c q;
                                  m = cdot c q;
                                  n = cabs2 q
                              in if k < 0 then Inr (sqrt (h * n) - radius_a ucap)
                                 else if k > Re c
                                 then Inr (sqrt (h * (n + 1 - 2 * Im q)) - radius_b ucap)
                                 else Inr (m - radius_a ucap)))))"

text \<open>
  \<open>lineseg_lineseg_intersection\<close>, geometry.c lines 275-322, called with \<open>out = NULL\<close> as
  \<open>laser_collision\<close> does.
\<close>

definition lineseg_lineseg_intersection :: "LineSegment \<Rightarrow> LineSegment \<Rightarrow> bool" where
  "lineseg_lineseg_intersection seg0 seg1 =
     (let p0_x = Re (ls_a seg0); p0_y = Im (ls_a seg0);
          p1_x = Re (ls_b seg0); p1_y = Im (ls_b seg0);
          p2_x = Re (ls_a seg1); p2_y = Im (ls_a seg1);
          p3_x = Re (ls_b seg1); p3_y = Im (ls_b seg1);
          s1_x = p1_x - p0_x; s1_y = p1_y - p0_y;
          s2_x = p3_x - p2_x; s2_y = p3_y - p2_y;
          d = - s2_x * s1_y + s1_x * s2_y
      in if d = 0 then False
         else (let s = (- s1_y * (p0_x - p2_x) + s1_x * (p0_y - p2_y)) / d
               in if s < 0 \<or> s > 1 then False
                  else (let u = (s2_x * (p0_y - p2_y) - s2_y * (p0_x - p2_x)) / d
                        in if u < 0 \<or> u > 1 then False else True)))"

section \<open>Collision and graze engine\<close>

record Player =
  plr_pos :: complex
  plr_velocity :: complex

text \<open>\<open>laser_is_active\<close>, laser.c lines 126-129, and \<open>laser_bbox_rect\<close>, lines 650-655.\<close>

definition laser_is_active :: "Laser \<Rightarrow> bool" where
  "laser_is_active l = collision_active l"

definition laser_bbox_rect :: "Laser \<Rightarrow> Rect" where
  "laser_bbox_rect l =
     \<lparr> top_left = bbox_top_left (bbox l), bottom_right = bbox_bottom_right (bbox l) \<rparr>"

text \<open>
  What one call of \<open>laser_collision\<close> leaves behind: the value returned, the laser
  (whose \<open>next_graze\<close> the call may set) and the position passed to \<open>player_graze\<close> when
  the call invokes it.
\<close>

record CollisionResult =
  cr_hit :: bool
  cr_laser :: Laser
  cr_graze :: "complex option"

text \<open>
  The segment loop of \<open>laser_collision\<close>, laser.c lines 698-727. \<open>plrmotion\<close> is \<open>None\<close>
  when \<open>player_moved\<close> is false. The loop carries \<open>graze_dist\<close> and \<open>graze_pos\<close>; the
  boolean of the result says whether the loop returned \<open>true\<close>. A NaN distance fails
  both comparisons, so the segment changes nothing.
\<close>

fun collision_loop ::
  "bool \<Rightarrow> complex \<Rightarrow> LineSegment option \<Rightarrow> LaserSegment list \<Rightarrow> real \<Rightarrow> complex
   \<Rightarrow> cerror + (bool \<times> real \<times> complex)" where
  "collision_loop graze plrpos plrmotion [] graze_dist graze_pos =
     Inr (False, graze_dist, graze_pos)"
| "collision_loop graze plrpos plrmotion (lseg # rest) graze_dist graze_pos =
     (let s = \<lparr> ls_a = pos_a lseg, ls_b = pos_b lseg \<rparr>
      in if (case plrmotion of None \<Rightarrow> False
             | Some pm \<Rightarrow> lineseg_lineseg_intersection pm s)
         then Inr (True, graze_dist, graze_pos)
         else (let c = \<lparr> uc_pos = s,
                         radius_a = max (width_a lseg * 0.5 - 4) 2,
                         radius_b = max (width_b lseg * 0.5 - 4) 2 \<rparr>
               in case ucapsule_dist_from_point plrpos c of
                    Inl AssertionFailed \<Rightarrow> Inl AssertionFailed
                  | Inl OutOfBounds \<Rightarrow> Inl OutOfBounds
                  | Inl NotANumber \<Rightarrow>
                      collision_loop graze plrpos plrmotion rest graze_dist graze_pos
                  | Inr d \<Rightarrow>
                      if d < 0 then Inr (True, graze_dist, graze_pos)
                      else if graze \<and> d < graze_dist then
                        (let f = lineseg_closest_factor (uc_pos c) plrpos;
                             gp = clerp (ls_a (uc_pos c)) (ls_b (uc_pos c)) f;
                             v = cnormalize (plrpos - gp);
                             gp' = gp + 0.5 * clerp (of_real (width_a lseg))
                                                    (of_real (width_b lseg)) f * v
                         in collision_loop graze plrpos plrmotion rest d gp')
                      else collision_loop graze plrpos plrmotion rest graze_dist graze_pos))"

text \<open>
  \<open>laser_collision\<close>, laser.c lines 657-735. \<open>frames\<close> is \<open>global.frames\<close> and \<open>segments\<close> is
  the shared buffer \<open>lintern.segments\<close>, of which the laser owns \<open>num_segments\<close>
  elements from \<open>segments_ofs\<close> on. \<open>global.frames\<close> and \<open>next_graze\<close> are C \<open>int\<close>s, read
  as unbounded integers: \<open>global.frames + 4\<close> does not overflow in a run of less than
  a year.
\<close>

definition laser_collision ::
  "int \<Rightarrow> LaserSegment list \<Rightarrow> Laser \<Rightarrow> Player \<Rightarrow> cerror + CollisionResult" where
  "laser_collision frames segments l plr =
     (if \<not> laser_is_active l then Inr \<lparr> cr_hit = False, cr_laser = l, cr_graze = None \<rparr>
      else (let num_segs = num_segments l
            in if num_segs < 1 then Inr \<lparr> cr_hit = False, cr_laser = l, cr_graze = None \<rparr>
               else (let graze = (frames \<ge> next_graze l);
                         graze_maxdist = 42;
                         graze_dist = graze_maxdist;
                         graze_pos = 0;
                         bbox0 = laser_bbox_rect l;
                         graze_bbox_ofs = of_real graze_dist * Complex 1 1;
                         bbox1 = (if graze
                                  then \<lparr> top_left = top_left bbox0 - graze_bbox_ofs,
                                         bottom_right = bottom_right bbox0 + graze_bbox_ofs \<rparr>
                                  else bbox0)
                     in if \<not> point_in_rect (plr_pos plr) bbox1
                        then Inr \<lparr> cr_hit = False, cr_laser = l, cr_graze = None \<rparr>
                        else if segments_ofs l + nat num_segs > length segments
                        then Inl OutOfBounds
                        else (let segs = take (nat num_segs) (drop (segments_ofs l) segments);
                                  plrpos = plr_pos plr;
                                  plrmotion = (if plr_velocity plr \<noteq> 0
                                               then Some \<lparr> ls_a = plrpos - plr_velocity plr,
                                                            ls_b = plrpos \<rparr>
                                               else None)
                              in case collision_loop graze plrpos plrmotion segs
                                        graze_dist graze_pos of
                                   Inl e \<Rightarrow> Inl e
                                 | Inr (True, gd, gp) \<Rightarrow>
                                     Inr \<lparr> cr_hit = True, cr_laser = l, cr_graze = None \<rparr>
                                 | Inr (False, gd, gp) \<Rightarrow>
                                     if gd < graze_maxdist
                                     then Inr \<lparr> cr_hit = False,
                                                cr_laser = l\<lparr> next_graze := frames + 4 \<rparr>,
                                                cr_graze = Some gp \<rparr>
                                     else Inr \<lparr> cr_hit = False, cr_laser = l,
                                                cr_graze = None \<rparr>))))"

section \<open>Trace walker\<close>

text \<open>
  \<open>LaserTraceSample\<close> is declared in lasers/laser.h; laser.c uses the four fields below.
  The field \<open>segment\<close> points to the walker's copy of the current segment, which the
  model passes by value.
\<close>

record LaserTraceSample =
  segment :: LaserSegment
  ts_pos :: complex
  segment_param :: real
  discontinuous :: bool

text \<open>
  A callback \<open>LaserTraceFunc\<close> receives the laser, the sample and \<open>userdata\<close>. It returns a
  pointer, \<open>None\<close> for \<open>NULL\<close>, and may change what \<open>userdata\<close> points to, so the model
  returns the new user data with the pointer.
\<close>

type_synonym ('u, 'r) LaserTraceFunc = "Laser \<Rightarrow> LaserTraceSample \<Rightarrow> 'u \<Rightarrow> 'r option \<times> 'u"

text \<open>
  \<open>LaserTraceState\<close>, laser.c lines 438-448. The field \<open>seg\<close> is never used by the code
  and is left out. The position \<open>p\<close> is the one value of the walker that can turn into
  a NaN (see \<open>trace_segments\<close> below): \<open>st_p\<close> is \<open>None\<close> while it is one.
\<close>

record ('u, 'r) LaserTraceState =
  st_l :: Laser
  st_func :: "('u, 'r) LaserTraceFunc"
  st_userdata :: 'u
  st_sample :: LaserTraceSample
  st_p :: "complex option"
  st_step :: real
  st_accum :: real
  st_inverse_seglen :: real

text \<open>\<open>laser_trace_dispatch\<close>, laser.c lines 450-452.\<close>

definition laser_trace_dispatch ::
  "('u, 'r) LaserTraceState \<Rightarrow> 'r option \<times> ('u, 'r) LaserTraceState" where
  "laser_trace_dispatch st =
     (case st_func st (st_l st) (st_sample st) (st_userdata st) of
        (result, u') \<Rightarrow> (result, st\<lparr> st_userdata := u' \<rparr>))"

text \<open>
  \<open>laser_trace_advance\<close>, laser.c lines 454-478. The recursion does not end for every
  input (a step that is not positive never fills the accumulator), so the model
  counts the calls down from a given fuel and returns \<open>None\<close> when it runs out. The
  direction \<open>v\<close> is \<open>None\<close> when it is a NaN; \<open>st.p += v * l\<close> then makes the position a
  NaN whatever \<open>l\<close> is. The branches depend on \<open>l\<close>, \<open>step\<close> and \<open>accum\<close> only, which are
  never NaN. Where the C code would hand a NaN position to the callback the model
  stops with \<open>NotANumber\<close>.
\<close>

fun laser_trace_advance ::
  "nat \<Rightarrow> ('u, 'r) LaserTraceState \<Rightarrow> complex option \<Rightarrow> real
   \<Rightarrow> (cerror + 'r option \<times> ('u, 'r) LaserTraceState) option" where
  "laser_trace_advance 0 st v len = None"
| "laser_trace_advance (Suc fuel) st v len =
     (let full = len;
          len' = min len (st_step st - st_accum st);
          st1 = st\<lparr> st_accum := st_accum st + len',
                    st_sample := (st_sample st)\<lparr> segment_param :=
                       segment_param (st_sample st) + len' * st_inverse_seglen st \<rparr>,
                    st_p := (case (st_p st, v) of
                               (Some pt, Some dir) \<Rightarrow> Some (pt + dir * of_real len')
                             | _ \<Rightarrow> None) \<rparr>
      in if st_accum st1 \<ge> st_step st1 then
           (case st_p st1 of
              None \<Rightarrow> Some (Inl NotANumber)
            | Some pt \<Rightarrow>
                (let st2 = st1\<lparr> st_accum := st_accum st1 - st_step st1,
                                st_sample := (st_sample st1)\<lparr> ts_pos := pt \<rparr> \<rparr>
                 in case laser_trace_dispatch st2 of
                      (Some r, st3) \<Rightarrow> Some (Inr (Some r, st3))
                    | (None, st3) \<Rightarrow>
                        if full - len' > 0 then laser_trace_advance fuel st3 v (full - len')
                        else Some (Inr (None, st3))))
         else if full - len' > 0 then laser_trace_advance fuel st1 v (full - len')
         else Some (Inr (None, st1)))"

text \<open>
  The \<open>while\<close> loop of \<open>laser_trace\<close>, laser.c lines 533-541, with the same fuel
  discipline: the first argument bounds the iterations, the second is handed to
  \<open>laser_trace_advance\<close>. The result carries the remaining \<open>len\<close>.
\<close>

fun trace_while ::
  "nat \<Rightarrow> nat \<Rightarrow> ('u, 'r) LaserTraceState \<Rightarrow> complex option \<Rightarrow> real \<Rightarrow> real
   \<Rightarrow> (cerror + 'r option \<times> ('u, 'r) LaserTraceState \<times> real) option" where
  "trace_while 0 fuel st v len pstep = None"
| "trace_while (Suc n) fuel st v len pstep =
     (if len \<ge> pstep then
        (case laser_trace_advance fuel st v pstep of
           None \<Rightarrow> None
         | Some (Inl e) \<Rightarrow> Some (Inl e)
         | Some (Inr (Some r, st')) \<Rightarrow> Some (Inr (Some r, st', len))
         | Some (Inr (None, st')) \<Rightarrow> trace_while n fuel st' v (len - pstep) pstep)
      else Some (Inr (None, st, len)))"

text \<open>
  The \<open>for\<close> loop of \<open>laser_trace\<close>, laser.c lines 500-545, over the laser's segments.
  \<open>prev_endpos\<close> is \<open>None\<close> while it holds \<open>INFINITY\<close>, which differs from every segment
  endpoint. Line 543 calls \<open>laser_trace_advance\<close> for the rest of the segment and does
  nothing with the value it returns; the model does the same.

  For a segment of length zero \<open>inverse_seglen\<close> is infinite and the direction \<open>v\<close> is
  \<open>0 * inf\<close>, a NaN. The dispatch of lines 517-530 at \<open>pos.a\<close> does not use them and
  happens as for any segment. Every call of \<open>laser_trace_advance\<close> in such a segment
  turns \<open>st.p\<close> into a NaN, and \<open>segment_param\<close> into a value that is not finite; both
  are set again at line 515 and line 519, and a dispatch between an advance in such a
  segment and the next line 519 has a NaN position, where the model stops. So the
  number that the model keeps in \<open>st_inverse_seglen\<close> and \<open>segment_param\<close> for such a
  segment is never seen by a callback.
\<close>

fun trace_segments ::
  "nat \<Rightarrow> ('u, 'r) LaserTraceState \<Rightarrow> complex option \<Rightarrow> LaserSegment list
   \<Rightarrow> (cerror + 'r option \<times> ('u, 'r) LaserTraceState) option" where
  "trace_segments fuel st prev_endpos [] = Some (Inr (None, st))"
| "trace_segments fuel st prev_endpos (seg # rest) =
     (let s = (if prev_endpos \<noteq> Some (pos_a seg) \<and> prev_endpos = Some (pos_b seg)
               then laserseg_flip seg else seg);
          v0 = pos_b s - pos_a s;
          len = cmod v0;
          st1 = st\<lparr> st_inverse_seglen := 1 / len \<rparr>;
          v = (if len = 0 then None else Some (v0 * of_real (st_inverse_seglen st1)));
          st2 = st1\<lparr> st_sample := (st_sample st1)\<lparr> segment := s, segment_param := 0 \<rparr> \<rparr>;
          started =
            (if prev_endpos \<noteq> Some (pos_a s) then
               (let st3 = st2\<lparr> st_p := Some (pos_a s), st_accum := 0,
                               st_sample := (st_sample st2)\<lparr> discontinuous := True,
                                                             ts_pos := pos_a s \<rparr> \<rparr>
                in case laser_trace_dispatch st3 of
                     (Some r, st4) \<Rightarrow> (Some r, st4)
                   | (None, st4) \<Rightarrow>
                       (None, st4\<lparr> st_sample :=
                                    (st_sample st4)\<lparr> discontinuous := False \<rparr> \<rparr>))
             else (None, st2))
      in case started of
           (Some r, st5) \<Rightarrow> Some (Inr (Some r, st5))
         | (None, st5) \<Rightarrow>
             (case trace_while fuel fuel st5 v len (st_step st5 * 1) of
                None \<Rightarrow> None
              | Some (Inl e) \<Rightarrow> Some (Inl e)
              | Some (Inr (Some r, st6, len')) \<Rightarrow> Some (Inr (Some r, st6))
              | Some (Inr (None, st6, len')) \<Rightarrow>
                  (case laser_trace_advance fuel st6 v len' of
                     None \<Rightarrow> None
                   | Some (Inl e) \<Rightarrow> Some (Inl e)
                   | Some (Inr (ignored, st7)) \<Rightarrow>
                       trace_segments fuel st7 (Some (pos_b s)) rest)))"

text \<open>
  \<open>laser_trace\<close>, laser.c lines 480-548. The result is \<open>None\<close> when the fuel runs out;
  otherwise it is an error or the pointer returned together with the user data as the
  callbacks left it. The fields of the local \<open>LaserTraceState\<close> that the initializer
  does not name start at zero.
\<close>

definition laser_trace ::
  "nat \<Rightarrow> LaserSegment list \<Rightarrow> Laser \<Rightarrow> real \<Rightarrow> ('u, 'r) LaserTraceFunc \<Rightarrow> 'u
   \<Rightarrow> (cerror + 'r option \<times> 'u) option" where
  "laser_trace fuel segments l stp trace userdata =
     (if num_segments l < 1 then Some (Inr (None, userdata))
      else (let first_seg = segments_ofs l;
                n = nat (num_segments l)
            in if first_seg + n > length segments then Some (Inl OutOfBounds)
               else (let st = \<lparr> st_l = l, st_func = trace, st_userdata = userdata,
                                st_sample = \<lparr> segment = segments ! first_seg, ts_pos = 0,
                                              segment_param = 0, discontinuous = False \<rparr>,
                                st_p = Some (pos_a (segments ! first_seg)),
                                st_step = stp, st_accum = 0, st_inverse_seglen = 0 \<rparr>
                     in case trace_segments fuel st None (take n (drop first_seg segments)) of
                          None \<Rightarrow> None
                        | Some (Inl e) \<Rightarrow> Some (Inl e)
                        | Some (Inr (result, st')) \<Rightarrow>
                            Some (Inr (result, st_userdata st')))))"

section \<open>Concrete inputs\<close>

text \<open>
  A laser as \<open>create_laserline_ab\<close> makes it (laser.c lines 83-99): \<open>create_laser\<close> sets
  the width to 10 and the exponent to 1, the time span is 4, and \<open>laser_make_static\<close>
  freezes it.
\<close>

definition line_laser :: Laser where
  "line_laser =
     \<lparr> pos = 0, birthtime = 0, timespan = 4, deathtime = 100, timeshift = 4, speed = 0,
       width = 10, width_exponent = 1, rule = laser_rule_linear (1 / 2),
       collision_active = True, unclearable = False, next_graze = 0,
       bbox = \<lparr> bbox_top_left = Complex (- 50) (- 50), bbox_bottom_right = Complex 50 50 \<rparr>,
       segments_ofs = 0, num_segments = 1 \<rparr>"

definition line_segment :: LaserSegment where
  "line_segment =
     \<lparr> pos_a = 0, pos_b = 2, time_a = 0, time_b = - 4, width_a = 10, width_b = 10 \<rparr>"

definition tapered_segment :: LaserSegment where
  "tapered_segment =
     \<lparr> pos_a = 0, pos_b = 2, time_a = 0, time_b = - 4, width_a = 3, width_b = 1 \<rparr>"

definition near_player :: Player where
  "near_player = \<lparr> plr_pos = Complex 1 20, plr_velocity = 0 \<rparr>"

text \<open>Whether a call of \<open>laser_collision\<close> invoked \<open>player_graze\<close>.\<close>

definition graze_fired :: "cerror + CollisionResult \<Rightarrow> bool" where
  "graze_fired r = (case r of Inl e \<Rightarrow> False | Inr res \<Rightarrow> cr_graze res \<noteq> None)"

text \<open>
  A laser that owns three collinear segments of lengths 3/2, 3/4 and 2 laid end to
  end, and a callback that logs the position and the pointer of every invocation in
  its user data and returns a non-null pointer, the number of the invocation, once
  the walk has reached \<open>x = 2\<close>.
\<close>

definition chain_laser :: Laser where
  "chain_laser = line_laser\<lparr> num_segments := 3 \<rparr>"

definition chain_segments :: "LaserSegment list" where
  "chain_segments =
     [\<lparr> pos_a = 0, pos_b = 3 / 2, time_a = 0, time_b = - 1,
        width_a = 5, width_b = 5 \<rparr>,
      \<lparr> pos_a = 3 / 2, pos_b = 9 / 4, time_a = - 1, time_b = - 2,
        width_a = 5, width_b = 5 \<rparr>,
      \<lparr> pos_a = 9 / 4, pos_b = 17 / 4, time_a = - 2, time_b = - 4,
        width_a = 5, width_b = 5 \<rparr>]"

definition stop_at_two :: "((complex \<times> nat option) list, nat) LaserTraceFunc" where
  "stop_at_two l smp seen =
     (let result = (if Re (ts_pos smp) \<ge> 2 then Some (Suc (length seen)) else None)
      in (result, seen @ [(ts_pos smp, result)]))"

text \<open>
  A laser made by \<open>create_laser\<close> with \<open>laser_rule_accelerated(4, -8)\<close>, time span 8, seen
  at frame 8 after its birth: its position is \<open>4 t (1 - t)\<close>, which leaves the origin,
  turns round at \<open>t = 1/2\<close> and is back at the origin at \<open>t = 1\<close>, all on one line.
  \<open>returning_params\<close> and \<open>returning_samples\<close> are what \<open>laser_prepare_sampling_params\<close> and
  \<open>fill_samples\<close> compute for it.
\<close>

definition returning_laser :: Laser where
  "returning_laser =
     \<lparr> pos = 0, birthtime = 0, timespan = 8, deathtime = 100, timeshift = 0, speed = 1,
       width = 10, width_exponent = 1, rule = laser_rule_accelerated 4 (- 8),
       collision_active = True, unclearable = False, next_graze = 0,
       bbox = \<lparr> bbox_top_left = 0, bbox_bottom_right = 0 \<rparr>,
       segments_ofs = 0, num_segments = 0 \<rparr>"

definition returning_params :: LaserSamplingParams where
  "returning_params = \<lparr> num_samples = 17, time_shift = 0, time_step = 1 / 2 \<rparr>"

definition returning_samples :: "LaserSample list" where
  "returning_samples =
   [\<lparr> sample_p = 0, sample_t = 0 \<rparr>, \<lparr> sample_p = 1, sample_t = 1 / 2 \<rparr>,
    \<lparr> sample_p = 0, sample_t = 1 \<rparr>, \<lparr> sample_p = - 3, sample_t = 3 / 2 \<rparr>,
    \<lparr> sample_p = - 8, sample_t = 2 \<rparr>, \<lparr> sample_p = - 15, sample_t = 5 / 2 \<rparr>,
    \<lparr> sample_p = - 24, sample_t = 3 \<rparr>, \<lparr> sample_p = - 35, sample_t = 7 / 2 \<rparr>,
    \<lparr> sample_p = - 48, sample_t = 4 \<rparr>, \<lparr> sample_p = - 63, sample_t = 9 / 2 \<rparr>,
    \<lparr> sample_p = - 80, sample_t = 5 \<rparr>, \<lparr> sample_p = - 99, sample_t = 11 / 2 \<rparr>,
    \<lparr> sample_p = - 120, sample_t = 6 \<rparr>, \<lparr> sample_p = - 143, sample_t = 13 / 2 \<rparr>,
    \<lparr> sample_p = - 168, sample_t = 7 \<rparr>, \<lparr> sample_p = - 195, sample_t = 15 / 2 \<rparr>,
    \<lparr> sample_p = - 224, sample_t = 8 \<rparr>]"




definition outside_bounds :: FloatRect where
  "outside_bounds = \<lparr> rect_x = - 13, rect_y = - 13, rect_w = 506, rect_h = 586 \<rparr>"

text \<open>
  A segment of width and length zero, as \<open>quantize_laser\<close> stores it for a laser with a
  single sample, and a resting player one unit away from it.
\<close>

definition point_segment :: LaserSegment where
  "point_segment =
     \<lparr> pos_a = 0, pos_b = 0, time_a = 0, time_b = 0, width_a = 0, width_b = 0 \<rparr>"



text \<open>
  Three samples round the top left corner of the inflated viewport \<open>outside_bounds\<close>: each
  of the two chords between consecutive samples passes outside it, while the chord from
  the first to the third crosses it.
\<close>

definition corner_params :: LaserSamplingParams where
  "corner_params = \<lparr> num_samples = 3, time_shift = 0, time_step = 1 / 2 \<rparr>"

definition corner_samples :: "LaserSample list" where
  "corner_samples =
     [\<lparr> sample_p = Complex (- 100) 300, sample_t = 0 \<rparr>,
      \<lparr> sample_p = Complex (- 100) (- 100), sample_t = 1 / 2 \<rparr>,
      \<lparr> sample_p = Complex 300 (- 100), sample_t = 1 \<rparr>]"

section \<open>Auxiliary facts\<close>

lemma cabs2_cmod: "cabs2 z = (cmod z)\<^sup>2"
  unfolding cabs2_def cmod_power2 by (simp add: power2_eq_square)

lemma ccross_Complex: "ccross (Complex x y) (Complex x' y') = x * y' - y * x'"
  by (simp add: ccross_def)

lemma cdot_Complex: "cdot (Complex x y) (Complex x' y') = x * x' + y * y'"
  by (simp add: cdot_def)

text \<open>Lagrange's identity, for two perpendicular vectors.\<close>

lemma cross_perp_abs:
  assumes "cdot u w = 0"
  shows "\<bar>ccross u w\<bar> = cmod u * cmod w"
proof -
  have "(ccross u w)\<^sup>2 = cabs2 u * cabs2 w - (cdot u w)\<^sup>2"
    by (simp add: ccross_def cdot_def cabs2_def power2_eq_square algebra_simps)
  then have "\<bar>ccross u w\<bar>\<^sup>2 = (cmod u * cmod w)\<^sup>2"
    using assms by (simp add: cabs2_cmod power_mult_distrib)
  then show ?thesis
    by (rule power2_eq_imp_eq) simp_all
qed

lemma cdot_cswap_shift: "cdot (u + w / 2) (cnj (cswap w)) = ccross u w"
  by (simp add: cdot_def ccross_def cswap_def field_simps)

lemma cdot_shift: "cdot (u + w / 2) w = cdot u w + cabs2 w / 2"
  by (simp add: cdot_def cabs2_def field_simps)

text \<open>The capsule distance at a point on the perpendicular bisector, equal radii.\<close>

lemma ucapsule_dist_bisector:
  assumes ab: "a \<noteq> b" and perp: "cdot (pt - (a + b) / 2) (b - a) = 0"
  shows "ucapsule_dist_from_point pt
           \<lparr> uc_pos = \<lparr> ls_a = a, ls_b = b \<rparr>, radius_a = r, radius_b = r \<rparr>
         = Inr (cmod (pt - (a + b) / 2) - r)"
proof -
  define u where "u = pt - (a + b) / 2"
  define h where "h = cabs2 (b - a)"
  have wnz: "b - a \<noteq> 0" using ab by simp
  have hsq: "h = (cmod (b - a))\<^sup>2" by (simp add: h_def cabs2_cmod)
  have hpos: "0 < h" using wnz by (simp add: hsq)
  have sqrth: "sqrt h = cmod (b - a)" by (simp add: hsq)
  have p1: "pt - a = u + (b - a) / 2" by (simp add: u_def field_simps)
  have perp': "cdot u (b - a) = 0" using perp by (simp add: u_def)
  have re_q: "cdot (pt - a) (cnj (cswap (b - a))) = ccross u (b - a)"
    unfolding p1 by (rule cdot_cswap_shift)
  have "cdot (pt - a) (b - a) = cdot u (b - a) + h / 2"
    unfolding p1 h_def by (rule cdot_shift)
  then have im_q: "cdot (pt - a) (b - a) = h / 2" using perp' by simp
  have m_eq: "sqrt h * \<bar>ccross u (b - a)\<bar> / h = cmod u"
  proof -
    have "sqrt h * \<bar>ccross u (b - a)\<bar> / h
          = cmod (b - a) * (cmod u * cmod (b - a)) / (cmod (b - a))\<^sup>2"
      by (simp add: cross_perp_abs[OF perp'] sqrth hsq)
    also have "\<dots> = cmod u" using wnz by (simp add: power2_eq_square)
    finally show ?thesis .
  qed
  have k_ok: "\<not> sqrt h < sqrt h / 2" using hpos by simp
  show ?thesis
    unfolding ucapsule_dist_from_point_def
    using hpos k_ok m_eq
    by (simp add: Let_def re_q im_q h_def[symmetric] ccross_Complex cdot_Complex
          u_def[symmetric])
qed

text \<open>With the graze gate closed the segment loop leaves \<open>graze_dist\<close> as it was.\<close>

lemma collision_loop_no_graze:
  "collision_loop False pp pm segs gd gp = Inr (h, gd', gp') \<Longrightarrow> gd' = gd"
proof (induction segs)
  case Nil
  then show ?case by simp
next
  case (Cons s segs)
  then show ?case
    by (auto simp: Let_def split: if_splits sum.splits cerror.splits)
qed

lemma laser_collision_fired:
  assumes "laser_collision F segs l plr = Inr res" and "cr_graze res \<noteq> None"
  shows "cr_laser res = l\<lparr> next_graze := F + 4 \<rparr>"
  using assms
  by (auto simp: laser_collision_def Let_def
           split: if_splits sum.splits prod.splits bool.splits)

lemma laser_collision_gated:
  assumes "\<not> F \<ge> next_graze l" and "laser_collision F segs l plr = Inr res"
  shows "cr_graze res = None \<and> cr_laser res = l"
  using assms
  by (auto simp: laser_collision_def Let_def dest!: collision_loop_no_graze
           split: if_splits sum.splits prod.splits bool.splits)

lemmas collision_eval =
  laser_collision_def Let_def line_laser_def line_segment_def near_player_def
  laser_is_active_def laser_bbox_rect_def point_in_rect_def rect_left_def rect_right_def
  rect_top_def rect_bottom_def ucapsule_dist_from_point_def cabs2_def cdot_def ccross_def
  cswap_def

lemma line_laser_grazes:
  "\<exists>gp. laser_collision 10 [line_segment] line_laser near_player =
     Inr \<lparr> cr_hit = False, cr_laser = line_laser\<lparr> next_graze := 14 \<rparr>,
           cr_graze = Some gp \<rparr>"
  by (simp add: collision_eval)

text \<open>Four frames after a graze the gate is open again.\<close>

lemma line_laser_grazes_again:
  "graze_fired (laser_collision 14 [line_segment] (line_laser\<lparr> next_graze := 14 \<rparr>)
                  near_player)"
  by (simp add: graze_fired_def collision_eval)

text \<open>Facts about the sampler and the quantizer.\<close>

lemma prepare_ignores_range:
  "laser_prepare_sampling_params frames (l\<lparr> segments_ofs := a, num_segments := b \<rparr>) stp =
   laser_prepare_sampling_params frames l stp"
  by (simp add: laser_prepare_sampling_params_def Let_def)

lemma fill_loop_ignores_range:
  "fill_loop n (l\<lparr> segments_ofs := a, num_segments := b \<rparr>) ts mt tm arr = fill_loop n l ts mt tm arr"
  by (induction n l ts mt tm arr rule: fill_loop.induct) (simp_all add: laser_pos_at_def Let_def)

lemma fill_samples_ignores_range:
  "fill_samples sp (l\<lparr> segments_ofs := a, num_segments := b \<rparr>) = fill_samples sp l"
  by (simp add: fill_samples_def fill_loop_ignores_range laser_pos_at_def Let_def)
















text \<open>Evaluation of the sampler and the quantizer on the laser that turns back.\<close>

lemma returning_prepare:
  "laser_prepare_sampling_params 8 returning_laser (1 / 2) = Some returning_params"
  by (simp add: laser_prepare_sampling_params_def returning_laser_def returning_params_def
        Let_def)

lemma returning_pos_at: "laser_pos_at returning_laser tm = of_real (tm * (4 - 4 * tm))"
  by (simp add: laser_pos_at_def returning_laser_def laser_rule_accelerated_def Let_def
        algebra_simps)

lemma returning_fill_loop:
  "fill_loop 16 returning_laser (1 / 2) 8 (1 / 2) [\<lparr> sample_p = 0, sample_t = 0 \<rparr>]
     = returning_samples"
proof -
  have n16: "(16::nat) = Suc (Suc (Suc (Suc 12)))"
    and n12: "(12::nat) = Suc (Suc (Suc (Suc 8)))"
    and n8: "(8::nat) = Suc (Suc (Suc (Suc 4)))"
    and n4: "(4::nat) = Suc (Suc (Suc (Suc 0)))"
    by simp_all
  have "fill_loop 16 returning_laser (1 / 2) 8 (1 / 2) [\<lparr> sample_p = 0, sample_t = 0 \<rparr>] =
        fill_loop 12 returning_laser (1 / 2) 8 (5 / 2) (take 5 returning_samples)"
    apply (subst n16)
    apply (simp only: fill_loop.simps Let_def)
    apply (simp add: returning_pos_at returning_samples_def)
    done
  also have "\<dots> = fill_loop 8 returning_laser (1 / 2) 8 (9 / 2) (take 9 returning_samples)"
    apply (subst n12)
    apply (simp only: fill_loop.simps Let_def)
    apply (simp add: returning_pos_at returning_samples_def)
    done
  also have "\<dots> = fill_loop 4 returning_laser (1 / 2) 8 (13 / 2) (take 13 returning_samples)"
    apply (subst n8)
    apply (simp only: fill_loop.simps Let_def)
    apply (simp add: returning_pos_at returning_samples_def)
    done
  also have "\<dots> = returning_samples"
    apply (subst n4)
    apply (simp only: fill_loop.simps Let_def)
    apply (simp add: returning_pos_at returning_samples_def)
    done
  finally show ?thesis .
qed

lemma returning_fill: "fill_samples returning_params returning_laser = Inr returning_samples"
proof -
  have ts: "timespan returning_laser = 8" by (simp add: returning_laser_def)
  have l: "length returning_samples = 17" by (simp add: returning_samples_def)
  have u: "returning_samples[16 := (returning_samples ! 16)\<lparr> sample_t := 8 \<rparr>]
             = returning_samples"
    by (simp add: returning_samples_def)
  have a: "sample_t (returning_samples ! 15) < 8"
    by (simp add: returning_samples_def)
  show ?thesis
    by (simp add: fill_samples_def returning_params_def Let_def returning_pos_at ts
          returning_fill_loop l u a)
qed

lemma returning_construct:
  "construct_segments sg lz returning_params wp vb returning_samples = Inl AssertionFailed"
  by (simp add: construct_segments_def returning_samples_def returning_params_def Let_def
        cabs2_def cdot_def)

lemma returning_quantized:
  "quantize_laser 8 480 560 8 [] returning_laser = Inl AssertionFailed"
proof -
  have ns: "num_samples returning_params = 17" by (simp add: returning_params_def)
  have len: "length returning_samples = 17" by (simp add: returning_samples_def)
  show ?thesis
    by (simp add: quantize_laser_def prepare_ignores_range fill_samples_ignores_range
          returning_prepare returning_fill Let_def ns len returning_construct)
qed

text \<open>
  What \<open>fill_samples\<close> guarantees: no two consecutive samples have the same position, so
  the first \<open>assume\<close> of \<open>construct_segments\<close> holds.
\<close>

lemma fill_loop_distinct_adj:
  "arr \<noteq> [] \<Longrightarrow> distinct_adj (map sample_p arr)
     \<Longrightarrow> distinct_adj (map sample_p (fill_loop n l ts mt tm arr))"
proof (induction n l ts mt tm arr rule: fill_loop.induct)
  case (1 l tstep maxtime tm arr)
  then show ?case by simp
next
  case (2 n l tstep maxtime tm arr)
  then show ?case
    by (simp add: Let_def distinct_adj_append_iff last_map)
qed

lemma map_sample_p_retime:
  "map sample_p (arr[i := (arr ! i)\<lparr> sample_t := x \<rparr>]) = map sample_p arr"
proof (cases "i < length arr")
  case True
  then show ?thesis by (auto simp: list_eq_iff_nth_eq nth_list_update)
next
  case False
  then have "arr[i := (arr ! i)\<lparr> sample_t := x \<rparr>] = arr"
    by (intro list_update_beyond) simp
  then show ?thesis by simp
qed

lemma fill_samples_distinct_adj:
  assumes "fill_samples sp l = Inr samples"
  shows "distinct_adj (map sample_p samples)"
proof -
  have "distinct_adj (map sample_p
          (fill_loop (num_samples sp - 1) l (time_step sp) (time_shift sp + timespan l)
             (time_shift sp + time_step sp)
             [\<lparr> sample_p = laser_pos_at l (time_shift sp), sample_t = time_shift sp \<rparr>]))"
    by (rule fill_loop_distinct_adj) simp_all
  with assms show ?thesis
    by (auto simp: fill_samples_def Let_def map_sample_p_retime split: if_splits)
qed













text \<open>
  The reading of the corner samples: the quantizer pairs consecutive samples only, and
  culls both chords, although the first and the third sample are visible together.
\<close>

lemma corner_samples_culled:
  "quantizer_chords corner_params corner_samples =
     [(Complex (- 100) 300, Complex (- 100) (- 100)),
      (Complex (- 100) (- 100), Complex 300 (- 100))] \<and>
   visible_chords outside_bounds (quantizer_chords corner_params corner_samples) = [] \<and>
   segment_is_visible (Complex (- 100) 300) (Complex 300 (- 100)) outside_bounds"
  by (simp add: quantizer_chords_def corner_params_def corner_samples_def visible_chords_def
        outside_bounds_def segment_is_visible_def Let_def cabs2_def)








lemma ucapsule_dist_zero_length:
  assumes "ra \<le> rb"
  shows "ucapsule_dist_from_point pt
           \<lparr> uc_pos = \<lparr> ls_a = a, ls_b = a \<rparr>, radius_a = ra, radius_b = rb \<rparr>
         = Inl NotANumber"
  using assms by (simp add: ucapsule_dist_from_point_def cabs2_def)

lemma no_intersection_zero_length:
  "\<not> lineseg_lineseg_intersection pm \<lparr> ls_a = a, ls_b = a \<rparr>"
  by (simp add: lineseg_lineseg_intersection_def)


text \<open>
  A laser that owns one segment of length zero: the walker invokes the callback once, at
  the segment's start, and returns \<open>NULL\<close>.
\<close>

lemma laser_trace_zero_length:
  "laser_trace 4 [point_segment] line_laser 1 stop_at_two [] = Some (Inr (None, [(0, None)]))"
  apply (simp add: laser_trace_def line_laser_def point_segment_def Let_def)
  apply (simp add: numeral_eq_Suc Let_def laserseg_flip_def laser_trace_dispatch_def
      stop_at_two_def)
  done

section \<open>The claims\<close>

text \<open>
  C1. For a capsule whose two radii both equal \<open>r\<close>, on a segment from \<open>a\<close> to \<open>b\<close> with
  \<open>a \<noteq> b\<close>, and a point \<open>pt\<close> whose offset from the midpoint of the segment is
  perpendicular to the segment, \<open>ucapsule_dist_from_point\<close> returns the distance of
  \<open>pt\<close> from the midpoint minus \<open>r\<close>: it is 0 when the point is exactly \<open>r\<close> away,
  negative when it is closer than \<open>r\<close> and positive when it is farther than \<open>r\<close>.
\<close>

theorem ucapsule_dist_midpoint:
  assumes "a \<noteq> b" and "cdot (pt - (a + b) / 2) (b - a) = 0"
  shows "\<exists>d. ucapsule_dist_from_point pt
                \<lparr> uc_pos = \<lparr> ls_a = a, ls_b = b \<rparr>, radius_a = r, radius_b = r \<rparr> = Inr d
             \<and> d = cmod (pt - (a + b) / 2) - r
             \<and> (cmod (pt - (a + b) / 2) = r \<longrightarrow> d = 0)
             \<and> (cmod (pt - (a + b) / 2) < r \<longrightarrow> d < 0)
             \<and> (cmod (pt - (a + b) / 2) > r \<longrightarrow> d > 0)"
  using ucapsule_dist_bisector[OF assms, of r] by simp

theorem ucapsule_dist_midpoint_witness:
  "(0::complex) \<noteq> 2 \<and> cdot (Complex 1 3 - (0 + 2) / 2) (2 - 0) = 0 \<and>
   cmod (Complex 1 3 - (0 + 2) / 2) = 3 \<and>
   ucapsule_dist_from_point (Complex 1 3)
     \<lparr> uc_pos = \<lparr> ls_a = 0, ls_b = 2 \<rparr>, radius_a = 3, radius_b = 3 \<rparr> = Inr 0"
proof -
  have h1: "(0::complex) \<noteq> 2" by simp
  have h2: "cdot (Complex 1 3 - (0 + 2) / 2) (2 - 0) = 0" by (simp add: cdot_def)
  have e: "Complex 1 3 - (0 + 2) / 2 = Complex 0 3" by (simp add: complex_eq_iff)
  have h3: "cmod (Complex 1 3 - (0 + 2) / 2) = 3" unfolding e by (simp add: cmod_def)
  from ucapsule_dist_midpoint[OF h1 h2, of 3] h3
  have "ucapsule_dist_from_point (Complex 1 3)
     \<lparr> uc_pos = \<lparr> ls_a = 0, ls_b = 2 \<rparr>, radius_a = 3, radius_b = 3 \<rparr> = Inr 0"
    by auto
  with h1 h2 h3 show ?thesis by blast
qed

text \<open>
  C2. The claim is that once the callback of \<open>laser_trace\<close> returns a non-null pointer no
  further invocation happens and \<open>laser_trace\<close> returns that pointer. On the chain of
  three segments walked with step 1 the third invocation, at \<open>x = 2\<close>, happens inside
  the call of line 543 that finishes the second segment, and returns the pointer 3.
  The walk goes on: a fourth invocation happens at \<open>x = 3\<close>, and \<open>laser_trace\<close> returns
  the pointer 4 of that invocation. When the laser owns only the first two segments,
  \<open>laser_trace\<close> returns \<open>NULL\<close> after the same third invocation.
\<close>

theorem laser_trace_ignores_abort:
  "laser_trace 4 chain_segments chain_laser 1 stop_at_two [] =
     Some (Inr (Some 4, [(0, None), (1, None), (2, Some 3), (3, Some 4)])) \<and>
   laser_trace 4 chain_segments (chain_laser\<lparr> num_segments := 2 \<rparr>) 1 stop_at_two [] =
     Some (Inr (None, [(0, None), (1, None), (2, Some 3)]))"
proof
  show "laser_trace 4 chain_segments chain_laser 1 stop_at_two [] =
     Some (Inr (Some 4, [(0, None), (1, None), (2, Some 3), (3, Some 4)]))"
    apply (simp add: laser_trace_def chain_laser_def line_laser_def chain_segments_def Let_def)
    apply (simp add: numeral_eq_Suc Let_def laserseg_flip_def laser_trace_dispatch_def
        stop_at_two_def)
    done
  show "laser_trace 4 chain_segments (chain_laser\<lparr> num_segments := 2 \<rparr>) 1 stop_at_two [] =
     Some (Inr (None, [(0, None), (1, None), (2, Some 3)]))"
    apply (simp add: laser_trace_def chain_laser_def line_laser_def chain_segments_def Let_def)
    apply (simp add: numeral_eq_Suc Let_def laserseg_flip_def laser_trace_dispatch_def
        stop_at_two_def)
    done
qed

text \<open>
  C3, as the code has it. For a laser with \<open>width_exponent = 1\<close> and a time span
  \<open>T > 0\<close>, the half-width at \<open>t = 0\<close> and at \<open>t = T\<close> is 0.27 times the laser's current
  width (0.36 of the scale \<open>0.75 * width\<close>); the profile is 0 at \<open>t = - T / 8\<close> and at
  \<open>t = 9 * T / 8\<close>, outside the window.
\<close>

theorem width_at_ends_exponent_one:
  assumes "0 < timespan l" and "width_exponent l = 1"
  shows "calc_sample_width (calc_width_params l) 0 = 0.27 * width l \<and>
         calc_sample_width (calc_width_params l) (timespan l) = 0.27 * width l \<and>
         calc_sample_width (calc_width_params l) (- timespan l / 8) = 0 \<and>
         calc_sample_width (calc_width_params l) (9 * timespan l / 8) = 0"
proof -
  have nz: "timespan l \<noteq> 0" using assms(1) by simp
  have a: "calc_sample_width (calc_width_params l) 0 = 0.27 * width l"
    using nz assms(2)
    by (simp add: calc_sample_width_def calc_width_params_def Let_def field_simps)
  have b: "calc_sample_width (calc_width_params l) (timespan l) = 0.27 * width l"
    using nz assms(2)
    by (simp add: calc_sample_width_def calc_width_params_def Let_def field_simps)
  have c: "calc_sample_width (calc_width_params l) (- timespan l / 8) = 0"
    using nz assms(2)
    by (simp add: calc_sample_width_def calc_width_params_def Let_def field_simps)
  have d: "calc_sample_width (calc_width_params l) (9 * timespan l / 8) = 0"
    using nz assms(2)
    by (simp add: calc_sample_width_def calc_width_params_def Let_def field_simps)
  from a b c d show ?thesis by blast
qed

theorem width_at_ends_exponent_one_witness:
  "0 < timespan line_laser \<and> width_exponent line_laser = 1 \<and>
   calc_sample_width (calc_width_params line_laser) 0 = 27 / 10 \<and>
   calc_sample_width (calc_width_params line_laser) 4 = 27 / 10"
proof -
  have h1: "0 < timespan line_laser" by (simp add: line_laser_def)
  have h2: "width_exponent line_laser = 1" by (simp add: line_laser_def)
  from width_at_ends_exponent_one[OF h1 h2] h1 h2 show ?thesis
    by (simp add: line_laser_def)
qed

text \<open>
  C3, as the claim states it, fails: the laser of \<open>create_laserline_ab\<close>, of width 10
  and time span 4, has the half-width 2.7 at \<open>t = 0\<close> and at \<open>t = 4\<close>, not 0.
\<close>

theorem width_at_ends_counterexample:
  "width_exponent line_laser = 1 \<and> 0 < timespan line_laser \<and>
   calc_sample_width (calc_width_params line_laser) 0 \<noteq> 0 \<and>
   calc_sample_width (calc_width_params line_laser) (timespan line_laser) \<noteq> 0"
  by (simp add: calc_sample_width_def calc_width_params_def Let_def line_laser_def)

text \<open>
  C4. For a laser with \<open>width_exponent = 1\<close> and a time span \<open>T > 0\<close>, the half-width at
  \<open>t = T / 2\<close> is 0.75 times the laser's current width.
\<close>

theorem width_at_midpoint_exponent_one:
  assumes "0 < timespan l" and "width_exponent l = 1"
  shows "calc_sample_width (calc_width_params l) (timespan l / 2) = 0.75 * width l"
proof -
  have nz: "timespan l \<noteq> 0" using assms(1) by simp
  show ?thesis
    using nz assms(2)
    by (simp add: calc_sample_width_def calc_width_params_def Let_def field_simps)
qed

theorem width_at_midpoint_exponent_one_witness:
  "0 < timespan line_laser \<and> width_exponent line_laser = 1 \<and>
   calc_sample_width (calc_width_params line_laser) (4 / 2) = 15 / 2"
proof -
  have h1: "0 < timespan line_laser" by (simp add: line_laser_def)
  have h2: "width_exponent line_laser = 1" by (simp add: line_laser_def)
  from width_at_midpoint_exponent_one[OF h1 h2] h1 h2 show ?thesis
    by (simp add: line_laser_def)
qed

text \<open>
  C5. \<open>add_segment\<close> never fails its assertion: it appends one segment to the shared
  buffer, and that segment has \<open>width_a \<le> width_b\<close>. A segment given with the larger
  width at \<open>a\<close> is stored with its endpoints, times and widths swapped; any other
  segment is stored as given.
\<close>

theorem add_segment_canonical:
  "\<exists>seg l'. add_segment segments l cseg = Inr (segments @ [seg], l')
     \<and> width_a seg \<le> width_b seg
     \<and> (width_b cseg < width_a cseg \<longrightarrow>
          seg = \<lparr> pos_a = pos_b cseg, pos_b = pos_a cseg,
                  time_a = time_b cseg, time_b = time_a cseg,
                  width_a = width_b cseg, width_b = width_a cseg \<rparr>)
     \<and> (\<not> width_b cseg < width_a cseg \<longrightarrow> seg = cseg)"
  by (simp add: add_segment_def Let_def laserseg_flip_def)

theorem add_segment_canonical_witness:
  "width_b tapered_segment < width_a tapered_segment \<and>
   (\<exists>l'. add_segment [] line_laser tapered_segment =
      Inr ([\<lparr> pos_a = 2, pos_b = 0, time_a = - 4, time_b = 0,
               width_a = 1, width_b = 3 \<rparr>], l'))"
proof -
  have h: "width_b tapered_segment < width_a tapered_segment"
    by (simp add: tapered_segment_def)
  from add_segment_canonical[of "[]" line_laser tapered_segment] h
  have "\<exists>l'. add_segment [] line_laser tapered_segment =
      Inr ([\<lparr> pos_a = pos_b tapered_segment, pos_b = pos_a tapered_segment,
               time_a = time_b tapered_segment, time_b = time_a tapered_segment,
               width_a = width_b tapered_segment, width_b = width_a tapered_segment \<rparr>], l')"
    by auto
  with h show ?thesis by (simp add: tapered_segment_def)
qed

text \<open>
  C7. After \<open>laser_charge l t charge wd\<close> the laser's \<open>collision_active\<close> is true exactly
  when its new width is greater than 0.6 times the target width \<open>wd\<close>; in particular
  collision is off whenever the new width is below 60% of the target.
\<close>

theorem laser_charge_collision_active:
  "(collision_active (laser_charge l tk charge wd)
      \<longleftrightarrow> width (laser_charge l tk charge wd) > 0.6 * wd) \<and>
   (width (laser_charge l tk charge wd) < 0.6 * wd
      \<longrightarrow> \<not> collision_active (laser_charge l tk charge wd))"
  by (simp add: laser_charge_def Let_def mult.commute)

theorem laser_charge_collision_active_witness:
  "width (laser_charge line_laser 5 50 10) < 0.6 * 10 \<and>
   \<not> collision_active (laser_charge line_laser 5 50 10)"
proof -
  have h: "width (laser_charge line_laser 5 50 10) < 0.6 * 10"
    by (simp add: laser_charge_def Let_def)
  from laser_charge_collision_active[of line_laser 5 50 10] h show ?thesis
    by blast
qed

text \<open>
  C8. If a call of \<open>laser_collision\<close> at frame \<open>F\<close> invokes \<open>player_graze\<close> for a laser, then
  at any frame \<open>F'\<close> with \<open>F < F' < F + 4\<close> a call for that laser, whose \<open>next_graze\<close> is as
  the earlier call left it and whose other fields, segments and player may be
  anything, does not invoke \<open>player_graze\<close>, and leaves \<open>next_graze\<close> at \<open>F + 4\<close>. So no
  graze fires at \<open>F + 1\<close>, \<open>F + 2\<close> and \<open>F + 3\<close>, and the earliest next graze is at \<open>F + 4\<close>.
\<close>

theorem graze_cooldown:
  assumes "laser_collision F segments l plr = Inr res" and "cr_graze res \<noteq> None"
      and "F < F'" and "F' < F + 4"
      and "next_graze l' = next_graze (cr_laser res)"
  shows "\<not> graze_fired (laser_collision F' segments' l' plr') \<and>
         (\<forall>res'. laser_collision F' segments' l' plr' = Inr res' \<longrightarrow>
                  next_graze (cr_laser res') = F + 4)"
proof -
  have ng: "next_graze l' = F + 4"
    using laser_collision_fired[OF assms(1,2)] assms(5) by simp
  then have gate: "\<not> F' \<ge> next_graze l'" using assms(4) by simp
  show ?thesis
    using laser_collision_gated[OF gate] ng
    by (auto simp: graze_fired_def split: sum.splits)
qed

theorem graze_cooldown_witness:
  "graze_fired (laser_collision 10 [line_segment] line_laser near_player) \<and>
   \<not> graze_fired (laser_collision 13 [line_segment] (line_laser\<lparr> next_graze := 14 \<rparr>)
                     near_player)"
proof -
  obtain gp where
    r: "laser_collision 10 [line_segment] line_laser near_player =
          Inr \<lparr> cr_hit = False, cr_laser = line_laser\<lparr> next_graze := 14 \<rparr>,
                cr_graze = Some gp \<rparr>"
    using line_laser_grazes by blast
  have g: "cr_graze \<lparr> cr_hit = False, cr_laser = line_laser\<lparr> next_graze := 14 \<rparr>,
                      cr_graze = Some gp \<rparr> \<noteq> None"
    by simp
  have lt1: "(10::int) < 13" and lt2: "(13::int) < 10 + 4" by simp_all
  have c: "next_graze (line_laser\<lparr> next_graze := 14 \<rparr>) =
           next_graze (cr_laser \<lparr> cr_hit = False, cr_laser = line_laser\<lparr> next_graze := 14 \<rparr>,
                                  cr_graze = Some gp \<rparr>)"
    by simp
  have fired: "graze_fired (laser_collision 10 [line_segment] line_laser near_player)"
    unfolding r by (simp add: graze_fired_def)
  from graze_cooldown[OF r g lt1 lt2 c, of "[line_segment]" near_player] fired
  show ?thesis by blast
qed

text \<open>
  C6. The claim is that no squared length computed in \<open>construct_segments\<close> is zero, so that
  its assertions never fail. \<open>fill_samples\<close> does keep consecutive samples apart
  (\<open>fill_samples_distinct_adj\<close>), but \<open>norm2\<close> is computed from the last included point, not
  from the previous sample. For the accelerated laser that turns back, the samples at
  \<open>t = 0, 1/2, 1\<close> are at 0, 1 and 0: the sample at 1 is skipped as collinear, the next
  one coincides with the last included point, \<open>norm2\<close> is 0 and the assertion of line 328
  fails, so \<open>quantize_laser\<close> fails.
\<close>

theorem construct_segments_assertion_fails:
  "laser_prepare_sampling_params 8 returning_laser 0.5 = Some returning_params \<and>
   fill_samples returning_params returning_laser = Inr returning_samples \<and>
   distinct_adj (map sample_p returning_samples) \<and>
   construct_segments [] returning_laser returning_params (calc_width_params returning_laser)
      outside_bounds returning_samples = Inl AssertionFailed \<and>
   quantize_laser 8 480 560 8 [] returning_laser = Inl AssertionFailed"
proof -
  have "laser_prepare_sampling_params 8 returning_laser 0.5 = Some returning_params"
    using returning_prepare by simp
  moreover note returning_fill
  moreover have "distinct_adj (map sample_p returning_samples)"
    using returning_fill by (rule fill_samples_distinct_adj)
  moreover note returning_construct[of "[]" returning_laser
      "calc_width_params returning_laser" outside_bounds]
  moreover note returning_quantized
  ultimately show ?thesis by blast
qed









end
